theory Spec2Isabelle
  imports Complex_Main
begin

section \<open>JavaScript numbers and strings\<close>

text \<open>
  A JavaScript \<open>number\<close> is a double: a finite value, one of the two infinities, or
  \<open>NaN\<close>. Every arithmetic operation computes the exact result and rounds it to a double.
  That rounding is the parameter \<open>fl\<close> of the operations below: \<open>fl x\<close> is the double
  nearest to the real \<open>x\<close>, an infinity when \<open>x\<close> is beyond the range. Policy parameters,
  random draws and clock readings are finite doubles and have type \<open>real\<close> or \<open>int\<close>.
  The sign of a zero is not kept; no result of the code depends on it.
\<close>

datatype jsnum = NaN | NegInf | Num real | PosInf

text \<open>The comparison \<open>a <= b\<close>; it is false as soon as one side is \<open>NaN\<close>.\<close>

fun js_le :: "jsnum \<Rightarrow> jsnum \<Rightarrow> bool" where
  "js_le NaN b = False"
| "js_le a NaN = False"
| "js_le NegInf b = True"
| "js_le a PosInf = True"
| "js_le (Num x) (Num y) = (x \<le> y)"
| "js_le a b = False"

fun js_sgn :: "jsnum \<Rightarrow> real" where
  "js_sgn (Num x) = sgn x"
| "js_sgn PosInf = 1"
| "js_sgn NegInf = - 1"
| "js_sgn NaN = 0"

definition inf_of_sign :: "real \<Rightarrow> jsnum" where
  "inf_of_sign s = (if s > 0 then PosInf else if s < 0 then NegInf else NaN)"

text \<open>\<open>a * b\<close>: an infinity times zero is \<open>NaN\<close>.\<close>

fun js_times :: "(real \<Rightarrow> jsnum) \<Rightarrow> jsnum \<Rightarrow> jsnum \<Rightarrow> jsnum" where
  "js_times fl NaN b = NaN"
| "js_times fl a NaN = NaN"
| "js_times fl (Num x) (Num y) = fl (x * y)"
| "js_times fl a b = inf_of_sign (js_sgn a * js_sgn b)"

text \<open>\<open>a + b\<close>: the sum of the two infinities is \<open>NaN\<close>.\<close>

fun js_plus :: "(real \<Rightarrow> jsnum) \<Rightarrow> jsnum \<Rightarrow> jsnum \<Rightarrow> jsnum" where
  "js_plus fl NaN b = NaN"
| "js_plus fl a NaN = NaN"
| "js_plus fl (Num x) (Num y) = fl (x + y)"
| "js_plus fl PosInf NegInf = NaN"
| "js_plus fl NegInf PosInf = NaN"
| "js_plus fl PosInf b = PosInf"
| "js_plus fl a PosInf = PosInf"
| "js_plus fl NegInf b = NegInf"
| "js_plus fl a NegInf = NegInf"

fun js_neg :: "jsnum \<Rightarrow> jsnum" where
  "js_neg NaN = NaN"
| "js_neg (Num x) = Num (- x)"
| "js_neg PosInf = NegInf"
| "js_neg NegInf = PosInf"

definition js_minus :: "(real \<Rightarrow> jsnum) \<Rightarrow> jsnum \<Rightarrow> jsnum \<Rightarrow> jsnum" where
  "js_minus fl a b = js_plus fl a (js_neg b)"

text \<open>\<open>a / b\<close> for a finite divisor other than zero, the only division the code makes.\<close>

fun js_div :: "(real \<Rightarrow> jsnum) \<Rightarrow> jsnum \<Rightarrow> real \<Rightarrow> jsnum" where
  "js_div fl NaN d = NaN"
| "js_div fl (Num x) d = fl (x / d)"
| "js_div fl a d = inf_of_sign (js_sgn a * sgn d)"

definition Math_min :: "jsnum \<Rightarrow> jsnum \<Rightarrow> jsnum" where
  "Math_min a b = (if a = NaN \<or> b = NaN then NaN else if js_le a b then a else b)"

definition Math_max :: "jsnum \<Rightarrow> jsnum \<Rightarrow> jsnum" where
  "Math_max a b = (if a = NaN \<or> b = NaN then NaN else if js_le a b then b else a)"

text \<open>
  \<open>Math.round\<close> gives the nearest integer, halves going up, and \<open>Math.ceil\<close> the least
  integer not below; both are exact on doubles and keep \<open>NaN\<close> and the infinities.
\<close>

fun Math_round :: "jsnum \<Rightarrow> jsnum" where
  "Math_round (Num x) = Num (of_int \<lfloor>x + 1 / 2\<rfloor>)"
| "Math_round a = a"

fun Math_ceil :: "jsnum \<Rightarrow> jsnum" where
  "Math_ceil (Num x) = Num (of_int \<lceil>x\<rceil>)"
| "Math_ceil a = a"

text \<open>\<open>Math.pow(2, n)\<close> for a natural number \<open>n\<close>.\<close>

definition Math_pow2 :: "(real \<Rightarrow> jsnum) \<Rightarrow> nat \<Rightarrow> jsnum" where
  "Math_pow2 fl n = fl (2 ^ n)"

text \<open>
  A rounding for worked examples: it keeps every value below \<open>2^1024\<close> in magnitude as
  it is and sends the rest to the infinities. It agrees with the rounding to doubles
  wherever the exact result is itself a double, which is the case at every step of the
  examples that use it (whole numbers and halves of moderate size, and \<open>2^1024\<close>).
\<close>

definition fl_exact :: "real \<Rightarrow> jsnum" where
  "fl_exact x = (if 2 ^ 1024 \<le> x then PosInf else if x \<le> - (2 ^ 1024) then NegInf else Num x)"

text \<open>\<open>String.prototype.includes\<close>.\<close>

fun str_includes :: "string \<Rightarrow> string \<Rightarrow> bool" where
  "str_includes [] sub = (sub = [])"
| "str_includes (c # cs) sub = (take (length sub) (c # cs) = sub \<or> str_includes cs sub)"

text \<open>Decimal rendering of an integer, as a template literal prints it.\<close>

definition digit_char :: "nat \<Rightarrow> char" where
  "digit_char d = char_of (48 + d)"

fun show_nat :: "nat \<Rightarrow> string" where
  "show_nat n = (if n < 10 then [digit_char n] else show_nat (n div 10) @ [digit_char (n mod 10)])"

definition show_int :: "int \<Rightarrow> string" where
  "show_int i = (if i < 0 then CHR ''-'' # show_nat (nat (- i)) else show_nat (nat i))"

section \<open>Error classes (utils/ErrorHandler.ts)\<close>

datatype ErrorCode =
    AUTH_FAILED | TOKEN_EXPIRED | INVALID_CREDENTIALS
  | RATE_LIMIT_EXCEEDED | SERVICE_UNAVAILABLE | TIMEOUT | NETWORK_ERROR | API_ERROR
  | DATABASE_ERROR | CONNECTION_ERROR | QUERY_ERROR
  | SYNC_FAILED | FETCH_FAILED | MAX_RETRIES_EXCEEDED
  | VALIDATION_ERROR | CONFIG_ERROR

text \<open>The string each member of the enum stands for.\<close>

fun code_string :: "ErrorCode \<Rightarrow> string" where
  "code_string AUTH_FAILED = ''AUTH_FAILED''"
| "code_string TOKEN_EXPIRED = ''TOKEN_EXPIRED''"
| "code_string INVALID_CREDENTIALS = ''INVALID_CREDENTIALS''"
| "code_string RATE_LIMIT_EXCEEDED = ''RATE_LIMIT_EXCEEDED''"
| "code_string SERVICE_UNAVAILABLE = ''SERVICE_UNAVAILABLE''"
| "code_string TIMEOUT = ''TIMEOUT''"
| "code_string NETWORK_ERROR = ''NETWORK_ERROR''"
| "code_string API_ERROR = ''API_ERROR''"
| "code_string DATABASE_ERROR = ''DATABASE_ERROR''"
| "code_string CONNECTION_ERROR = ''CONNECTION_ERROR''"
| "code_string QUERY_ERROR = ''QUERY_ERROR''"
| "code_string SYNC_FAILED = ''SYNC_FAILED''"
| "code_string FETCH_FAILED = ''FETCH_FAILED''"
| "code_string MAX_RETRIES_EXCEEDED = ''MAX_RETRIES_EXCEEDED''"
| "code_string VALIDATION_ERROR = ''VALIDATION_ERROR''"
| "code_string CONFIG_ERROR = ''CONFIG_ERROR''"

datatype ctxval = CStr string | CNum int

text \<open>
  A thrown value is either an \<open>Error\<close> that is not an \<open>AppError\<close>, with its message and
  the string in its \<open>code\<close> property when it has one (as the system errors of the
  runtime do), or an \<open>AppError\<close> with the fields its constructor stores. \<open>undefined\<close>
  fields are \<open>None\<close>.
\<close>

datatype error =
    PlainError string "string option"
  | AppError
      (errName: string)
      (code: ErrorCode)
      (msg: string)
      (statusCode: "int option")
      (retryAfter: "jsnum option")
      (originalError: "error option")
      (errContext: "(string \<times> ctxval) list option")
      (isRetryable: bool)

fun message :: "error \<Rightarrow> string" where
  "message (PlainError m co) = m"
| "message (AppError n c m s r oe cx b) = m"

definition AuthError :: "string \<Rightarrow> error option \<Rightarrow> error" where
  "AuthError m oe = AppError ''AuthError'' AUTH_FAILED m (Some 401) None oe None True"

definition TokenExpiredError :: "string \<Rightarrow> error" where
  "TokenExpiredError m = AppError ''TokenExpiredError'' TOKEN_EXPIRED m (Some 401) None None None True"

definition RateLimitError :: "jsnum \<Rightarrow> string \<Rightarrow> error" where
  "RateLimitError ra m =
     AppError ''RateLimitError'' RATE_LIMIT_EXCEEDED m (Some 429) (Some ra) None None True"

definition ServiceUnavailableError :: "string \<Rightarrow> jsnum option \<Rightarrow> error" where
  "ServiceUnavailableError m ra =
     AppError ''ServiceUnavailableError'' SERVICE_UNAVAILABLE m (Some 503) ra None None True"

definition TimeoutError :: "string \<Rightarrow> (string \<times> ctxval) list option \<Rightarrow> error" where
  "TimeoutError m cx = AppError ''TimeoutError'' TIMEOUT m None None None cx True"

definition NetworkError :: "string \<Rightarrow> error option \<Rightarrow> error" where
  "NetworkError m oe = AppError ''NetworkError'' NETWORK_ERROR m None None oe None True"

definition ApiError ::
  "string \<Rightarrow> int option \<Rightarrow> error option \<Rightarrow> (string \<times> ctxval) list option \<Rightarrow> error" where
  "ApiError m sc oe cx = AppError ''ApiError'' API_ERROR m sc None oe cx False"

definition MaxRetriesExceededError :: "string \<Rightarrow> int \<Rightarrow> error option \<Rightarrow> error" where
  "MaxRetriesExceededError m attempts lastError =
     AppError ''MaxRetriesExceededError'' MAX_RETRIES_EXCEEDED m None None lastError
       (Some [(''attempts'', CNum attempts)]) False"

fun isRetryableError :: "error \<Rightarrow> bool" where
  "isRetryableError (AppError n c m s r oe cx b) = b"
| "isRetryableError (PlainError m co) =
     (str_includes m ''ECONNREFUSED'' \<or> str_includes m ''ENOTFOUND'' \<or> str_includes m ''ETIMEDOUT'')"

text \<open>\<open>getRetryAfter\<close> of ErrorHandler.ts: the hint stored in the error, if any.\<close>

fun getRetryAfter :: "error \<Rightarrow> jsnum option" where
  "getRetryAfter (AppError n c m s r oe cx b) = r"
| "getRetryAfter (PlainError m co) = None"

fun isErrorCode :: "error \<Rightarrow> ErrorCode \<Rightarrow> bool" where
  "isErrorCode (AppError n c m s r oe cx b) c' = (c = c')"
| "isErrorCode (PlainError m co) c' = False"

section \<open>Retry engine (utils/RetryStrategy.ts)\<close>

record RetryOptions =
  maxAttempts :: int
  baseDelay :: real
  jitter :: real
  maxDelay :: real
  retryableErrors :: "ErrorCode list"

definition DEFAULT_RETRY_OPTIONS :: RetryOptions where
  "DEFAULT_RETRY_OPTIONS =
     \<lparr> maxAttempts = 5, baseDelay = 1000, jitter = 250, maxDelay = 16000,
       retryableErrors =
         [SERVICE_UNAVAILABLE, TIMEOUT, NETWORK_ERROR, RATE_LIMIT_EXCEEDED, TOKEN_EXPIRED] \<rparr>"

text \<open>
  \<open>Math.random() * jitter * 2 - jitter\<close>, where \<open>r\<close> is the value \<open>Math.random()\<close> returns,
  a double in \<open>[0, 1)\<close>.
\<close>

definition jitterAmount :: "(real \<Rightarrow> jsnum) \<Rightarrow> real \<Rightarrow> real \<Rightarrow> jsnum" where
  "jitterAmount fl r jitter' =
     js_minus fl (js_times fl (js_times fl (Num r) (Num jitter')) (Num 2)) (Num jitter')"

text \<open>\<open>calculateDelay\<close>, with the random draw \<open>r\<close> of this call as its last argument.\<close>

definition calculateDelay ::
  "(real \<Rightarrow> jsnum) \<Rightarrow> nat \<Rightarrow> real \<Rightarrow> real \<Rightarrow> real \<Rightarrow> real \<Rightarrow> jsnum" where
  "calculateDelay fl attempt baseDelay' jitter' maxDelay' r =
     (let exponentialDelay = js_times fl (Num baseDelay') (Math_pow2 fl attempt);
          cappedDelay = Math_min exponentialDelay (Num maxDelay');
          finalDelay = Math_max (Num 0) (js_plus fl cappedDelay (jitterAmount fl r jitter'))
      in Math_round finalDelay)"

text \<open>
  \<open>shouldRetry\<close>. An \<open>AppError\<close> always has a \<open>code\<close> property; another error may have
  one, and is then looked up in the list by the string it holds.
\<close>

fun shouldRetry :: "error \<Rightarrow> int \<Rightarrow> int \<Rightarrow> ErrorCode list \<Rightarrow> bool" where
  "shouldRetry e attempt maxAttempts' retryable =
     (if attempt \<ge> maxAttempts' then False
      else if \<not> isRetryableError e then False
      else (case e of
              AppError n c m s r oe cx b \<Rightarrow>
                (if length retryable > 0 then c \<in> set retryable else True)
            | PlainError m None \<Rightarrow> True
            | PlainError m (Some errorCode) \<Rightarrow>
                (if length retryable > 0 then errorCode \<in> set (map code_string retryable)
                 else True)))"

text \<open>\<open>getRetryDelay\<close>, again with the random draw \<open>r\<close> of this call as an argument.\<close>

definition getRetryDelay ::
  "(real \<Rightarrow> jsnum) \<Rightarrow> error \<Rightarrow> nat \<Rightarrow> RetryOptions \<Rightarrow> real \<Rightarrow> jsnum" where
  "getRetryDelay fl e attempt options r =
     (case getRetryAfter e of
        Some retryAfter' \<Rightarrow>
          (let delayMs = js_times fl retryAfter' (Num 1000)
           in Math_round (js_plus fl delayMs (jitterAmount fl r (jitter options))))
      | None \<Rightarrow>
          (if isErrorCode e SERVICE_UNAVAILABLE
           then calculateDelay fl attempt (baseDelay options) (jitter options) (maxDelay options) r
           else if isErrorCode e TIMEOUT
           then calculateDelay fl attempt (baseDelay options) (jitter options) (maxDelay options) r
           else calculateDelay fl attempt (baseDelay options) (jitter options) (maxDelay options) r))"

text \<open>
  \<open>withRetry\<close>. The operation \<open>fn\<close> is given by the outcome of each of its invocations
  (\<open>fn k\<close> is what the call number \<open>k\<close> returns or throws, counted from 0), the random
  source by the draw of each delay computation. The result is the list of delays slept,
  in order, and the value returned (\<open>Inr\<close>) or the error thrown (\<open>Inl\<close>). The loop
  variables are \<open>attempt\<close> and \<open>lastError\<close>; \<open>opts\<close> is the merged option record.
\<close>

function withRetry_loop ::
  "(real \<Rightarrow> jsnum) \<Rightarrow> RetryOptions \<Rightarrow> (nat \<Rightarrow> error + 'a) \<Rightarrow> (nat \<Rightarrow> real) \<Rightarrow> nat
     \<Rightarrow> error option \<Rightarrow> jsnum list \<Rightarrow> jsnum list \<times> (error + 'a)" where
  "withRetry_loop fl opts fn rnd attempt lastError delays =
     (if int attempt < maxAttempts opts then
        (case fn attempt of
           Inr result \<Rightarrow> (delays, Inr result)
         | Inl e \<Rightarrow>
             (if \<not> shouldRetry e (int (attempt + 1)) (maxAttempts opts) (retryableErrors opts)
              then (delays, Inl e)
              else withRetry_loop fl opts fn rnd (attempt + 1) (Some e)
                     (delays @ [getRetryDelay fl e attempt opts (rnd attempt)])))
      else (delays,
            Inl (MaxRetriesExceededError
                   (''Operation failed after '' @ show_int (maxAttempts opts) @ '' attempts'')
                   (maxAttempts opts) lastError)))"
  by pat_completeness auto
termination
  by (relation "measure (\<lambda>(fl, opts, fn, rnd, attempt, lastError, delays).
                           nat (maxAttempts opts - int attempt))")
     auto

definition withRetry ::
  "(real \<Rightarrow> jsnum) \<Rightarrow> RetryOptions \<Rightarrow> (nat \<Rightarrow> error + 'a) \<Rightarrow> (nat \<Rightarrow> real)
     \<Rightarrow> jsnum list \<times> (error + 'a)" where
  "withRetry fl opts fn rnd = withRetry_loop fl opts fn rnd 0 None []"

section \<open>API client (api/ApiClient.ts)\<close>

record Token =
  access_token :: string
  token_type :: string
  expires_in :: int
  issued_at :: int

text \<open>
  \<open>parseInt(s, 10)\<close>: leading white space is skipped, one sign is read, then the longest
  run of decimal digits; with no digit the result is \<open>NaN\<close>, otherwise the double
  nearest to the integer read.
\<close>

definition isWhiteSpace :: "char \<Rightarrow> bool" where
  "isWhiteSpace c = (of_char c \<in> {9, 10, 11, 12, 13, 32, 160 :: nat})"

definition isDigit :: "char \<Rightarrow> bool" where
  "isDigit c = (48 \<le> (of_char c :: nat) \<and> (of_char c :: nat) \<le> 57)"

definition digitVal :: "char \<Rightarrow> nat" where
  "digitVal c = of_char c - 48"

definition parseInt10 :: "(real \<Rightarrow> jsnum) \<Rightarrow> string \<Rightarrow> jsnum" where
  "parseInt10 fl s =
     (let t = dropWhile isWhiteSpace s;
          sign = (case t of [] \<Rightarrow> 1 | c # cs \<Rightarrow> if c = CHR ''-'' then - 1 else 1);
          u = (case t of [] \<Rightarrow> t | c # cs \<Rightarrow> if c = CHR ''-'' \<or> c = CHR ''+'' then cs else t);
          ds = takeWhile isDigit u
      in if ds = [] then NaN
         else fl (of_int (sign * int (foldl (\<lambda>a c. 10 * a + digitVal c) 0 ds))))"

text \<open>
  A fetch \<open>Response\<close>, as far as the client reads it: \<open>headers\<close> is \<open>headers.get\<close> on the
  lower-case header name (\<open>None\<close> for \<open>null\<close>), \<open>jsonBody\<close> the outcome of \<open>response.json()\<close>,
  \<open>errorBody\<close> the string \<open>getErrorBody\<close> extracts from the body.
\<close>

record 'a Response =
  status :: int
  statusText :: string
  headers :: "string \<Rightarrow> string option"
  jsonBody :: "error + 'a"
  errorBody :: string

definition ok :: "'a Response \<Rightarrow> bool" where
  "ok response = (200 \<le> status response \<and> status response \<le> 299)"

text \<open>
  \<open>ApiClient.getRetryAfter\<close>. \<open>parseDate s\<close> stands for \<open>new Date(s).getTime()\<close>, the
  milliseconds since the epoch, or \<open>None\<close> when the date is invalid and \<open>getTime()\<close> is
  \<open>NaN\<close>; \<open>now\<close> is \<open>Date.now()\<close>. \<open>new Date\<close> does not throw on a string, so the \<open>catch\<close>
  branch is never taken.
\<close>

definition getTime :: "(string \<Rightarrow> int option) \<Rightarrow> string \<Rightarrow> jsnum" where
  "getTime parseDate s = (case parseDate s of None \<Rightarrow> NaN | Some t \<Rightarrow> Num (of_int t))"

definition ApiClient_getRetryAfter ::
  "(real \<Rightarrow> jsnum) \<Rightarrow> (string \<Rightarrow> int option) \<Rightarrow> int \<Rightarrow> 'a Response \<Rightarrow> jsnum" where
  "ApiClient_getRetryAfter fl parseDate now response =
     (case headers response ''retry-after'' of
        None \<Rightarrow> Num 60
      | Some retryAfter' \<Rightarrow>
          (if retryAfter' = [] then Num 60
           else (let seconds = parseInt10 fl retryAfter'
                 in if seconds \<noteq> NaN then seconds
                    else (let secondsUntil =
                                js_div fl
                                  (Math_max (Num 0)
                                     (js_minus fl (getTime parseDate retryAfter') (Num (of_int now))))
                                  1000
                          in Math_ceil secondsUntil))))"

text \<open>\<open>a || b\<close> on strings: the empty string is falsy.\<close>

definition str_or :: "string \<Rightarrow> string \<Rightarrow> string" where
  "str_or a b = (if a = [] then b else a)"

definition handleResponse ::
  "(real \<Rightarrow> jsnum) \<Rightarrow> (string \<Rightarrow> int option) \<Rightarrow> int \<Rightarrow> string \<Rightarrow> 'a Response
     \<Rightarrow> error + 'a" where
  "handleResponse fl parseDate now url response =
     (if ok response then
        (case jsonBody response of
           Inr data \<Rightarrow> Inr data
         | Inl e \<Rightarrow>
             Inl (ApiError (''Failed to parse response: '' @ message e)
                    (Some (status response)) (Some e) None))
      else if status response = 401 then
        Inl (TokenExpiredError ''Authentication token expired'')
      else if status response = 429 then
        Inl (RateLimitError (ApiClient_getRetryAfter fl parseDate now response)
               (str_or (errorBody response) ''Rate limit exceeded''))
      else if status response = 503 then
        Inl (ServiceUnavailableError
               (str_or (errorBody response) ''Service temporarily unavailable'')
               (Some (ApiClient_getRetryAfter fl parseDate now response)))
      else
        Inl (ApiError
               (str_or (errorBody response)
                  (''HTTP '' @ show_int (status response) @ '': '' @ statusText response))
               (Some (status response)) None
               (Some [(''url'', CStr url), (''status'', CNum (status response))])))"

text \<open>
  The \<open>catch\<close> block of \<open>executeRequest\<close>. It sees what \<open>getToken\<close> and the fetch throw;
  the promise of \<open>handleResponse\<close> is returned without \<open>await\<close>, so its rejection leaves
  the function as it is.
\<close>

definition transformError :: "string \<Rightarrow> error \<Rightarrow> error" where
  "transformError url e =
     (if str_includes (message e) ''timeout''
      then TimeoutError (message e) (Some [(''url'', CStr url)])
      else if str_includes (message e) ''fetch failed'' \<or> str_includes (message e) ''network''
      then NetworkError (''Network error: '' @ message e) (Some e)
      else e)"

text \<open>
  One attempt of \<open>executeRequest\<close>: the outcome of \<open>tokenManager.getToken()\<close>, the outcome
  of the fetch raced against the timeout, and the clock when the response is handled.
\<close>

record 'a Attempt =
  tokenResult :: "error + Token"
  fetchResult :: "error + 'a Response"
  clock :: int

definition executeRequest ::
  "(real \<Rightarrow> jsnum) \<Rightarrow> (string \<Rightarrow> int option) \<Rightarrow> string \<Rightarrow> 'a Attempt \<Rightarrow> error + 'a" where
  "executeRequest fl parseDate url att =
     (case tokenResult att of
        Inl e \<Rightarrow> Inl (transformError url e)
      | Inr token' \<Rightarrow>
          (case fetchResult att of
             Inl e \<Rightarrow> Inl (transformError url e)
           | Inr response \<Rightarrow> handleResponse fl parseDate (clock att) url response))"

text \<open>
  \<open>ApiClient.request\<close>: the retry loop, with the policy the client fixes, around one
  \<open>executeRequest\<close> per attempt. The rate limiter hands the result of the work it runs
  through unchanged, so it does not appear here.
\<close>

definition ApiClient_request ::
  "(real \<Rightarrow> jsnum) \<Rightarrow> (string \<Rightarrow> int option) \<Rightarrow> string \<Rightarrow> (nat \<Rightarrow> 'a Attempt)
     \<Rightarrow> (nat \<Rightarrow> real) \<Rightarrow> jsnum list \<times> (error + 'a)" where
  "ApiClient_request fl parseDate url atts rnd =
     withRetry fl \<lparr> maxAttempts = 5, baseDelay = 1000, jitter = 250, maxDelay = 16000,
                    retryableErrors = [] \<rparr>
       (\<lambda>k. executeRequest fl parseDate url (atts k)) rnd"

section \<open>Rate limiter (api/RateLimiter.ts)\<close>

record RateLimitConfig =
  maxRequests :: int
  windowMs :: int

record RateLimitInfo =
  remaining :: int
  resetAt :: int
  total' :: int

text \<open>
  A queued request: the generated identifier stands for the closures \<open>execute\<close>,
  \<open>resolve\<close> and \<open>reject\<close> of the caller it belongs to.
\<close>

record QueuedRequest =
  req_id :: nat
  priority :: int
  timestamp :: int

text \<open>
  Where the one \<open>processQueue\<close> coroutine is suspended: not running, inside
  \<open>await this.waitForReset()\<close> (with the earliest time it can resume), or inside
  \<open>await request.execute()\<close>.
\<close>

datatype drain_pc = Idle | AwaitReset int | AwaitExecute nat

text \<open>
  The limiter's fields, the position of the drain coroutine, and a log of the
  admissions (request and time at which its timestamp was recorded and its work started).
\<close>

record RateLimiter =
  requests :: "int list"
  queue :: "QueuedRequest list"
  processing :: bool
  drain :: drain_pc
  admitted :: "(nat \<times> int) list"

definition new_RateLimiter :: RateLimiter where
  "new_RateLimiter = \<lparr> requests = [], queue = [], processing = False, drain = Idle, admitted = [] \<rparr>"

definition cleanOldRequests :: "RateLimitConfig \<Rightarrow> int \<Rightarrow> RateLimiter \<Rightarrow> RateLimiter" where
  "cleanOldRequests cfg now s =
     (let cutoff = now - windowMs cfg
      in s\<lparr> requests := filter (\<lambda>timestamp'. timestamp' > cutoff) (requests s) \<rparr>)"

definition recordRequest :: "int \<Rightarrow> RateLimiter \<Rightarrow> RateLimiter" where
  "recordRequest now s = s\<lparr> requests := requests s @ [now] \<rparr>"

definition canMakeRequest :: "RateLimitConfig \<Rightarrow> int \<Rightarrow> RateLimiter \<Rightarrow> bool \<times> RateLimiter" where
  "canMakeRequest cfg now s =
     (let s' = cleanOldRequests cfg now s
      in (int (length (requests s')) < maxRequests cfg, s'))"

text \<open>
  \<open>getInfo\<close>. \<open>this.state.requests[0] || Date.now()\<close> takes the clock when the list is
  empty and also when its first timestamp is 0.
\<close>

definition getInfo :: "RateLimitConfig \<Rightarrow> int \<Rightarrow> RateLimiter \<Rightarrow> RateLimitInfo \<times> RateLimiter" where
  "getInfo cfg now s =
     (let s' = cleanOldRequests cfg now s;
          remaining' = max 0 (maxRequests cfg - int (length (requests s')));
          oldestRequest = (case requests s' of [] \<Rightarrow> now | t # ts \<Rightarrow> if t = 0 then now else t);
          resetAt' = oldestRequest + windowMs cfg
      in (\<lparr> remaining = remaining', resetAt = resetAt', total' = maxRequests cfg \<rparr>, s'))"

text \<open>
  \<open>waitForReset\<close>, up to its suspension: the result is the earliest time the caller
  resumes, the clock itself when nothing is slept.
\<close>

definition waitForReset :: "RateLimitConfig \<Rightarrow> int \<Rightarrow> RateLimiter \<Rightarrow> int \<times> RateLimiter" where
  "waitForReset cfg now s =
     (let (info, s') = getInfo cfg now s
      in if remaining info > 0 then (now, s')
         else (let waitTime = max 0 (resetAt info - now)
               in if waitTime > 0 then (now + waitTime, s') else (now, s')))"

text \<open>The comparator of \<open>queue.sort\<close> and a stable sort by it, as \<open>Array.prototype.sort\<close> is.\<close>

definition compareRequests :: "QueuedRequest \<Rightarrow> QueuedRequest \<Rightarrow> int" where
  "compareRequests a b =
     (if priority a \<noteq> priority b then priority b - priority a
      else timestamp a - timestamp b)"

fun insort_by :: "('a \<Rightarrow> 'a \<Rightarrow> int) \<Rightarrow> 'a \<Rightarrow> 'a list \<Rightarrow> 'a list" where
  "insort_by cmp x [] = [x]"
| "insort_by cmp x (y # ys) = (if cmp x y \<le> 0 then x # y # ys else y # insort_by cmp x ys)"

definition sort_by :: "('a \<Rightarrow> 'a \<Rightarrow> int) \<Rightarrow> 'a list \<Rightarrow> 'a list" where
  "sort_by cmp xs = foldr (insort_by cmp) xs []"

text \<open>
  The body of the \<open>processQueue\<close> loop from \<open>queue.shift()\<close> to the next suspension:
  the request is recorded and started without a further look at the window.
\<close>

definition drain_dispatch :: "int \<Rightarrow> RateLimiter \<Rightarrow> RateLimiter" where
  "drain_dispatch now s =
     (case queue s of
        [] \<Rightarrow> s\<lparr> processing := False, drain := Idle \<rparr>
      | request # rest \<Rightarrow>
          (recordRequest now (s\<lparr> queue := rest \<rparr>))
            \<lparr> drain := AwaitExecute (req_id request),
              admitted := admitted s @ [(req_id request, now)] \<rparr>)"

text \<open>The loop from its head to the next suspension, or to its end.\<close>

definition processQueue_loop :: "RateLimitConfig \<Rightarrow> int \<Rightarrow> RateLimiter \<Rightarrow> RateLimiter" where
  "processQueue_loop cfg now s =
     (if length (queue s) > 0 then
        (let (can, s1) = canMakeRequest cfg now s
         in if \<not> can
            then (let (wake, s2) = waitForReset cfg now s1 in s2\<lparr> drain := AwaitReset wake \<rparr>)
            else drain_dispatch now s1)
      else s\<lparr> processing := False, drain := Idle \<rparr>)"

definition processQueue :: "RateLimitConfig \<Rightarrow> int \<Rightarrow> RateLimiter \<Rightarrow> RateLimiter" where
  "processQueue cfg now s =
     (if processing s then s else processQueue_loop cfg now (s\<lparr> processing := True \<rparr>))"

definition queueRequest :: "RateLimitConfig \<Rightarrow> int \<Rightarrow> nat \<Rightarrow> int \<Rightarrow> RateLimiter \<Rightarrow> RateLimiter" where
  "queueRequest cfg now rid priority' s =
     (let request = \<lparr> req_id = rid, priority = priority', timestamp = now \<rparr>;
          s1 = s\<lparr> queue := sort_by compareRequests (queue s @ [request]) \<rparr>
      in if \<not> processing s1 then processQueue cfg now s1 else s1)"

definition execute :: "RateLimitConfig \<Rightarrow> int \<Rightarrow> nat \<Rightarrow> int \<Rightarrow> RateLimiter \<Rightarrow> RateLimiter" where
  "execute cfg now rid priority' s =
     (let (can, s1) = canMakeRequest cfg now s
      in if can
         then (recordRequest now s1)\<lparr> admitted := admitted s1 @ [(rid, now)] \<rparr>
         else queueRequest cfg now rid priority' s1)"

text \<open>
  The limiter runs on one thread: between two suspensions a piece of code runs alone.
  An event is one such piece, at the clock value it reads: a caller enters \<open>execute\<close>
  (request identifier and priority), the drain coroutine resumes after
  \<open>await this.waitForReset()\<close>, or it resumes after \<open>await request.execute()\<close>. An event
  that cannot happen in a state (the coroutine is not suspended there, or its timer has
  not expired) gives \<open>None\<close>.
\<close>

datatype event = Execute nat int | WaitOver | ExecuteDone

definition step :: "RateLimitConfig \<Rightarrow> int \<Rightarrow> event \<Rightarrow> RateLimiter \<Rightarrow> RateLimiter option" where
  "step cfg now ev s =
     (case ev of
        Execute rid priority' \<Rightarrow> Some (execute cfg now rid priority' s)
      | WaitOver \<Rightarrow>
          (case drain s of
             AwaitReset wake \<Rightarrow> if wake \<le> now then Some (drain_dispatch now s) else None
           | _ \<Rightarrow> None)
      | ExecuteDone \<Rightarrow>
          (case drain s of
             AwaitExecute rid \<Rightarrow> Some (processQueue_loop cfg now s)
           | _ \<Rightarrow> None))"

text \<open>A run: timed events in order, the clock never going back.\<close>

fun run :: "RateLimitConfig \<Rightarrow> int \<Rightarrow> RateLimiter \<Rightarrow> (int \<times> event) list \<Rightarrow> RateLimiter option" where
  "run cfg before s [] = Some s"
| "run cfg before s ((now, ev) # rest) =
     (if now < before then None
      else (case step cfg now ev s of
              None \<Rightarrow> None
            | Some s' \<Rightarrow> run cfg now s' rest))"

text \<open>
  Three callers and one timer, with capacity 1 and a window of 1000 ms: request 1 at
  time 100, request 2 at time 110 (queued, the drain sleeps until 1100), request 3 at
  time 1105, and the drain resuming at 1106.
\<close>

definition overtaking_run :: "(int \<times> event) list" where
  "overtaking_run =
     [(100, Execute 1 0), (110, Execute 2 0), (1105, Execute 3 0), (1106, WaitOver)]"

section \<open>Token manager (auth/TokenManager.ts)\<close>

definition TOKEN_REFRESH_BUFFER_SECONDS :: int where
  "TOKEN_REFRESH_BUFFER_SECONDS = 300"

record AuthResponse =
  auth_access_token :: string
  auth_token_type :: string
  auth_expires_in :: int

text \<open>
  The response of the authentication endpoint, as far as it is read. The body is taken
  to have the declared shape, \<open>expires_in\<close> being a whole number of seconds.
\<close>

record AuthHttpResponse =
  auth_status :: int
  auth_text :: string
  auth_json :: "error + AuthResponse"

text \<open>One call of \<open>authenticateWithApi\<close>: the clock and the outcome of the fetch.\<close>

record AuthAttempt =
  auth_clock :: int
  auth_fetch :: "error + AuthHttpResponse"

fun instanceof_AuthError :: "error \<Rightarrow> bool" where
  "instanceof_AuthError (AppError n c m s r oe cx b) = (n = ''AuthError'')"
| "instanceof_AuthError (PlainError m co) = False"

text \<open>The \<open>catch\<close> block of \<open>authenticateWithApi\<close>.\<close>

definition wrapAuthFailure :: "error \<Rightarrow> error" where
  "wrapAuthFailure e =
     (if instanceof_AuthError e then e
      else AuthError (''Network error during authentication: '' @ message e) (Some e))"

definition authenticateWithApi :: "AuthAttempt \<Rightarrow> error + Token" where
  "authenticateWithApi att =
     (case auth_fetch att of
        Inl e \<Rightarrow> Inl (wrapAuthFailure e)
      | Inr response \<Rightarrow>
          (if \<not> (200 \<le> auth_status response \<and> auth_status response \<le> 299)
           then Inl (wrapAuthFailure
                  (AuthError (''Authentication failed: '' @ show_int (auth_status response)
                                @ '' '' @ auth_text response) None))
           else (case auth_json response of
                   Inl e \<Rightarrow> Inl (wrapAuthFailure e)
                 | Inr authResponse \<Rightarrow>
                     Inr \<lparr> access_token = auth_access_token authResponse,
                           token_type = auth_token_type authResponse,
                           expires_in = auth_expires_in authResponse,
                           issued_at = auth_clock att div 1000 \<rparr>)))"

text \<open>
  The manager's fields (\<open>refreshState\<close> flattened), with the promise of a refresh named
  by the number of the \<open>acquireToken\<close> call that made it. \<open>pending\<close> lists the
  \<open>acquireToken\<close> calls whose request to the authentication endpoint is under way, each
  with a flag telling whether \<open>refreshToken\<close> started it.
\<close>

record TokenManager =
  token :: "Token option"
  isRefreshing :: bool
  promise :: "nat option"
  pending :: "(nat \<times> bool) list"
  nextPromise :: nat

definition new_TokenManager :: TokenManager where
  "new_TokenManager =
     \<lparr> token = None, isRefreshing = False, promise = None, pending = [], nextPromise = 0 \<rparr>"

text \<open>What a caller gets back: a token at once, or a promise to await.\<close>

datatype reply = Returned Token | Awaiting nat

definition isTokenExpired :: "int \<Rightarrow> TokenManager \<Rightarrow> bool" where
  "isTokenExpired now s =
     (case token s of
        None \<Rightarrow> True
      | Some t \<Rightarrow> (let now' = now div 1000; expiryTime = issued_at t + expires_in t
                  in now' \<ge> expiryTime))"

definition needsRefresh :: "int \<Rightarrow> TokenManager \<Rightarrow> bool" where
  "needsRefresh now s =
     (case token s of
        None \<Rightarrow> True
      | Some t \<Rightarrow> (let now' = now div 1000;
                      expiryTime = issued_at t + expires_in t;
                      refreshTime = expiryTime - TOKEN_REFRESH_BUFFER_SECONDS
                  in now' \<ge> refreshTime))"

text \<open>
  \<open>acquireToken\<close> runs without suspension up to the first fetch of its retry loop, so
  calling it puts a request under way at once; the rest runs when the loop settles.
\<close>

definition acquireToken_call :: "bool \<Rightarrow> TokenManager \<Rightarrow> nat \<times> TokenManager" where
  "acquireToken_call viaRefresh s =
     (nextPromise s,
      s\<lparr> pending := pending s @ [(nextPromise s, viaRefresh)], nextPromise := nextPromise s + 1 \<rparr>)"

definition refreshToken :: "TokenManager \<Rightarrow> reply \<times> TokenManager" where
  "refreshToken s =
     (if isRefreshing s \<and> promise s \<noteq> None then (Awaiting (the (promise s)), s)
      else (let (k, s1) = acquireToken_call True (s\<lparr> isRefreshing := True \<rparr>)
            in (Awaiting k, s1\<lparr> promise := Some k \<rparr>)))"

definition getToken :: "int \<Rightarrow> TokenManager \<Rightarrow> reply \<times> TokenManager" where
  "getToken now s =
     (if isRefreshing s \<and> promise s \<noteq> None then (Awaiting (the (promise s)), s)
      else (case token s of
              None \<Rightarrow> (let (k, s1) = acquireToken_call False s in (Awaiting k, s1))
            | Some t \<Rightarrow>
                (if isTokenExpired now s then refreshToken s
                 else if needsRefresh now s then refreshToken s
                 else (Returned t, s))))"

text \<open>
  \<open>getExpiryTime\<close>: the time value, in milliseconds, of the \<open>Date\<close> it builds. A \<open>Date\<close>
  whose time value is beyond 8.64e15 in magnitude is invalid, and \<open>toISOString\<close> throws
  a \<open>RangeError\<close> on it.
\<close>

definition getExpiryTime :: "TokenManager \<Rightarrow> int option" where
  "getExpiryTime s =
     (case token s of
        None \<Rightarrow> None
      | Some t \<Rightarrow> (let expiryTimestamp = (issued_at t + expires_in t) * 1000
                  in Some expiryTimestamp))"

definition toISOString_throws :: "int \<Rightarrow> bool" where
  "toISOString_throws timeValue = (\<bar>timeValue\<bar> > 8640000000000000)"

text \<open>
  The retry loop inside \<open>acquireToken\<close>, run over the given attempts and random draws.
\<close>

definition acquisition_outcome ::
  "(real \<Rightarrow> jsnum) \<Rightarrow> (nat \<Rightarrow> AuthAttempt) \<Rightarrow> (nat \<Rightarrow> real) \<Rightarrow> error + Token" where
  "acquisition_outcome fl attempts rnd =
     snd (withRetry fl \<lparr> maxAttempts = 3, baseDelay = 1000, jitter = 250, maxDelay = 5000,
                          retryableErrors = [] \<rparr>
            (\<lambda>i. authenticateWithApi (attempts i)) rnd)"

text \<open>
  The end of the \<open>acquireToken\<close> call \<open>k\<close>, once its retry loop has settled. When the
  loop threw, an \<open>AuthError\<close> wrapping the cause is thrown. When it returned a token,
  the token is stored and its expiry is logged; \<open>expiryTime?.toISOString()\<close> throws on
  an invalid date, inside the same \<open>try\<close>, and the call then fails with an \<open>AuthError\<close>
  too, the new token staying stored. When \<open>refreshToken\<close> made the call, its \<open>finally\<close>
  block then clears the refresh state. The result goes to every caller awaiting
  promise \<open>k\<close>.
\<close>

definition acquireToken_settle ::
  "(real \<Rightarrow> jsnum) \<Rightarrow> nat \<Rightarrow> (nat \<Rightarrow> AuthAttempt) \<Rightarrow> (nat \<Rightarrow> real) \<Rightarrow> TokenManager
     \<Rightarrow> ((error + Token) \<times> TokenManager) option" where
  "acquireToken_settle fl k attempts rnd s =
     (case map_of (pending s) k of
        None \<Rightarrow> None
      | Some viaRefresh \<Rightarrow>
          (let s1 = s\<lparr> pending := filter (\<lambda>p. fst p \<noteq> k) (pending s) \<rparr>;
               (result, s2) =
                 (case acquisition_outcome fl attempts rnd of
                    Inl e \<Rightarrow> (Inl (AuthError ''Failed to authenticate with API'' (Some e)), s1)
                  | Inr t \<Rightarrow>
                      (let s' = s1\<lparr> token := Some t \<rparr>
                       in (case getExpiryTime s' of
                             None \<Rightarrow> (Inr t, s')
                           | Some expiryTime \<Rightarrow>
                               if toISOString_throws expiryTime
                               then (Inl (AuthError ''Failed to authenticate with API''
                                            (Some (PlainError ''Invalid time value'' None))), s')
                               else (Inr t, s'))));
               s3 = (if viaRefresh then s2\<lparr> isRefreshing := False, promise := None \<rparr> else s2)
           in Some (result, s3)))"

text \<open>
  Sample data: an authentication endpoint that cannot be reached, random draws of one
  half (no jitter), and a manager holding a token issued at second 1000 for 3600
  seconds, so that it expires at second 4600 and enters the refresh buffer at 4300.
\<close>

definition endpoint_down :: "nat \<Rightarrow> AuthAttempt" where
  "endpoint_down k = \<lparr> auth_clock = 4400000, auth_fetch = Inl (PlainError ''fetch failed'' None) \<rparr>"

definition half_draws :: "nat \<Rightarrow> real" where
  "half_draws k = 1 / 2"

definition holding_token :: TokenManager where
  "holding_token =
     \<lparr> token = Some \<lparr> access_token = ''abc'', token_type = ''Bearer'', expires_in = 3600,
                      issued_at = 1000 \<rparr>,
       isRefreshing = False, promise = None, pending = [], nextPromise = 0 \<rparr>"

text \<open>
  More sample data: an endpoint that answers 200 with a lifetime of \<open>10^13\<close> seconds,
  which puts the expiry beyond the range of valid dates.
\<close>

definition endpoint_far_expiry :: "nat \<Rightarrow> AuthAttempt" where
  "endpoint_far_expiry k =
     \<lparr> auth_clock = 4400000,
       auth_fetch = Inr \<lparr> auth_status = 200, auth_text = [],
                          auth_json = Inr \<lparr> auth_access_token = ''xyz'',
                                            auth_token_type = ''Bearer'',
                                            auth_expires_in = 10000000000000 \<rparr> \<rparr> \<rparr>"

section \<open>Campaign worker and report (sync/CampaignWorker.ts, sync/SyncOrchestrator.ts)\<close>

datatype CampaignStatus = active | paused | completed

record Campaign =
  id' :: string
  name' :: string
  status' :: CampaignStatus
  budget :: real
  impressions :: int
  clicks :: int
  conversions :: int
  created_at :: string

record SyncResult =
  campaignId :: string
  success :: bool
  error' :: "error option"
  retries :: int
  duration :: int

text \<open>
  What one call of \<open>syncCampaign\<close> meets: the outcome of the injected \<open>syncCampaignFn\<close>, the
  outcome of the injected \<open>saveCampaignFn\<close> (called only after the first succeeded), and
  the two readings of the clock.
\<close>

record SyncEnv =
  syncOutcome :: "error + unit"
  saveOutcome :: "error + unit"
  startTime' :: int
  endTime' :: int

text \<open>The \<open>try\<close> block of \<open>syncCampaign\<close>, with the local variable \<open>retries\<close>.\<close>

definition syncCampaign_try :: "Campaign \<Rightarrow> SyncEnv \<Rightarrow> int \<Rightarrow> error + SyncResult" where
  "syncCampaign_try campaign env retries' =
     (case syncOutcome env of
        Inl e \<Rightarrow> Inl e
      | Inr u \<Rightarrow>
          (case saveOutcome env of
             Inl e \<Rightarrow> Inl e
           | Inr u' \<Rightarrow>
               Inr \<lparr> campaignId = id' campaign, success = True, error' = None,
                     retries = retries', duration = endTime' env - startTime' env \<rparr>))"

definition syncCampaign :: "Campaign \<Rightarrow> SyncEnv \<Rightarrow> error + SyncResult" where
  "syncCampaign campaign env =
     (let retries' = 0
      in (case syncCampaign_try campaign env retries' of
            Inr result \<Rightarrow> Inr result
          | Inl e \<Rightarrow>
              Inr \<lparr> campaignId = id' campaign, success = False, error' = Some e,
                    retries = retries', duration = endTime' env - startTime' env \<rparr>))"

text \<open>
  \<open>syncCampaignsWithProgress\<close>: each queue task pushes the result of its \<open>syncCampaign\<close>
  call; a task that threw would push nothing (\<open>Promise.allSettled\<close>). The jobs are
  listed in the order in which they complete.
\<close>

fun syncCampaignsWithProgress :: "(Campaign \<times> SyncEnv) list \<Rightarrow> SyncResult list" where
  "syncCampaignsWithProgress [] = []"
| "syncCampaignsWithProgress ((campaign, env) # jobs) =
     (case syncCampaign campaign env of
        Inr result \<Rightarrow> result # syncCampaignsWithProgress jobs
      | Inl e \<Rightarrow> syncCampaignsWithProgress jobs)"

record SyncReport =
  startTime :: int
  endTime :: int
  reportDuration :: int
  totalCampaigns :: int
  successCount :: nat
  failureCount :: nat
  retryCount :: int
  results :: "SyncResult list"
  failures :: "(string \<times> string) list"

definition failureMessage :: "SyncResult \<Rightarrow> string" where
  "failureMessage r =
     (case error' r of None \<Rightarrow> ''Unknown error'' | Some e \<Rightarrow> str_or (message e) ''Unknown error'')"

definition generateReport :: "int \<Rightarrow> int \<Rightarrow> int \<Rightarrow> SyncResult list \<Rightarrow> SyncReport" where
  "generateReport startTime'' endTime'' totalCampaigns' results' =
     \<lparr> startTime = startTime'',
       endTime = endTime'',
       reportDuration = endTime'' - startTime'',
       totalCampaigns = totalCampaigns',
       successCount = length (filter (\<lambda>r. success r) results'),
       failureCount = length (filter (\<lambda>r. \<not> success r) results'),
       retryCount = foldl (\<lambda>sum r. sum + retries r) 0 results',
       results = results',
       failures = map (\<lambda>r. (campaignId r, failureMessage r)) (filter (\<lambda>r. \<not> success r) results') \<rparr>"

section \<open>Properties of double arithmetic\<close>

text \<open>
  What the lemmas below use of the rounding \<open>fl\<close> to doubles: it is monotone, and it
  leaves the integers up to \<open>2^53\<close> in magnitude as they are.
\<close>

lemma fl_between:
  assumes mono: "\<forall>x y. x \<le> y \<longrightarrow> js_le (fl x) (fl y)"
    and exact: "\<forall>i::int. \<bar>i\<bar> \<le> 2 ^ 53 \<longrightarrow> fl (of_int i) = Num (of_int i)"
    and lo: "of_int lo \<le> x" "\<bar>lo\<bar> \<le> 2 ^ 53"
    and hi: "x \<le> of_int hi" "\<bar>hi\<bar> \<le> 2 ^ 53"
  shows "\<exists>y. fl x = Num y \<and> of_int lo \<le> y \<and> y \<le> of_int hi"
proof -
  have "js_le (fl (of_int lo)) (fl x)" using mono lo(1) by blast
  then have l: "js_le (Num (of_int lo)) (fl x)" using exact lo(2) by simp
  have "js_le (fl x) (fl (of_int hi))" using mono hi(1) by blast
  then have h: "js_le (fl x) (Num (of_int hi))" using exact hi(2) by simp
  show ?thesis using l h by (cases "fl x") auto
qed

lemma fl_above:
  assumes mono: "\<forall>x y. x \<le> y \<longrightarrow> js_le (fl x) (fl y)"
    and exact: "\<forall>i::int. \<bar>i\<bar> \<le> 2 ^ 53 \<longrightarrow> fl (of_int i) = Num (of_int i)"
    and lo: "of_int lo \<le> x" "\<bar>lo\<bar> \<le> 2 ^ 53"
  shows "fl x = PosInf \<or> (\<exists>y. fl x = Num y \<and> of_int lo \<le> y)"
proof -
  have "js_le (fl (of_int lo)) (fl x)" using mono lo(1) by blast
  then have l: "js_le (Num (of_int lo)) (fl x)" using exact lo(2) by simp
  show ?thesis using l by (cases "fl x") auto
qed

lemma Math_min_cap:
  assumes "e = PosInf \<or> (\<exists>y. e = Num y \<and> m \<le> y)"
  shows "Math_min e (Num m) = Num m"
  using assms by (auto simp: Math_min_def)

lemma cappedDelay_exact:
  assumes mono: "\<forall>x y. x \<le> y \<longrightarrow> js_le (fl x) (fl y)"
    and exact: "\<forall>i::int. \<bar>i\<bar> \<le> 2 ^ 53 \<longrightarrow> fl (of_int i) = Num (of_int i)"
    and b: "1 \<le> b" and m: "0 \<le> m" "m \<le> 2 ^ 53"
  shows "Math_min (js_times fl (Num (of_int b)) (Math_pow2 fl a)) (Num (of_int m))
         = Num (of_int (min (b * 2 ^ a) m))"
proof (cases "b * 2 ^ a \<le> m")
  case True
  have "(2::int) ^ a \<le> b * 2 ^ a" using b by (simp add: mult_le_cancel_right1)
  then have pa: "(2::int) ^ a \<le> 2 ^ 53" using True m by linarith
  have p2: "Math_pow2 fl a = Num (2 ^ a)"
    using exact [rule_format, of "2 ^ a"] pa by (simp add: Math_pow2_def)
  have "0 \<le> b * 2 ^ a" using b by simp
  then have "\<bar>b * 2 ^ a\<bar> \<le> 2 ^ 53" using True m by linarith
  then have "fl (of_int (b * 2 ^ a)) = Num (of_int (b * 2 ^ a))" using exact by blast
  then have "js_times fl (Num (of_int b)) (Math_pow2 fl a) = Num (of_int (b * 2 ^ a))"
    by (simp add: p2)
  moreover have "(of_int b :: real) * 2 ^ a \<le> of_int m"
    using True by (metis of_int_le_iff of_int_mult of_int_numeral of_int_power)
  ultimately show ?thesis using True by (simp add: Math_min_def min_def)
next
  case False
  then have gt: "m \<le> b * 2 ^ a" by simp
  have mabs: "\<bar>m\<bar> \<le> 2 ^ 53" using m by simp
  have "js_times fl (Num (of_int b)) (Math_pow2 fl a) = PosInf
        \<or> (\<exists>y. js_times fl (Num (of_int b)) (Math_pow2 fl a) = Num y \<and> of_int m \<le> y)"
  proof (cases "(2::int) ^ a \<le> 2 ^ 53")
    case True
    have p2: "Math_pow2 fl a = Num (2 ^ a)"
      using exact [rule_format, of "2 ^ a"] True by (simp add: Math_pow2_def)
    have "(of_int m :: real) \<le> of_int b * 2 ^ a"
      using gt by (metis of_int_le_iff of_int_mult of_int_numeral of_int_power)
    then show ?thesis
      using fl_above [OF mono exact _ mabs, of "of_int b * 2 ^ a"] by (simp add: p2)
  next
    case False
    then have "(of_int (2 ^ 53) :: real) \<le> 2 ^ a"
      by (metis less_imp_le not_le of_int_le_iff of_int_numeral of_int_power)
    then have "fl (2 ^ a) = PosInf \<or> (\<exists>y. fl (2 ^ a) = Num y \<and> of_int (2 ^ 53) \<le> y)"
      by (intro fl_above [OF mono exact]) simp_all
    then show ?thesis
    proof
      assume "fl (2 ^ a) = PosInf"
      then show ?thesis using b by (simp add: Math_pow2_def inf_of_sign_def)
    next
      assume "\<exists>y. fl (2 ^ a) = Num y \<and> of_int (2 ^ 53) \<le> y"
      then obtain y where y: "fl (2 ^ a) = Num y" "2 ^ 53 \<le> y" by auto
      have "1 * y \<le> of_int b * y" using b y(2) by (intro mult_right_mono) auto
      moreover have "(of_int m :: real) \<le> 2 ^ 53"
        using m(2) by (metis of_int_le_iff of_int_numeral of_int_power)
      ultimately have "(of_int m :: real) \<le> of_int b * y" using y(2) by linarith
      then show ?thesis
        using fl_above [OF mono exact _ mabs, of "of_int b * y"] by (simp add: Math_pow2_def y(1))
    qed
  qed
  then have "Math_min (js_times fl (Num (of_int b)) (Math_pow2 fl a)) (Num (of_int m)) = Num (of_int m)"
    by (rule Math_min_cap)
  then show ?thesis using False by (simp add: min_def)
qed


lemma jitterAmount_bounds:
  assumes mono: "\<forall>x y. x \<le> y \<longrightarrow> js_le (fl x) (fl y)"
    and exact: "\<forall>i::int. \<bar>i\<bar> \<le> 2 ^ 53 \<longrightarrow> fl (of_int i) = Num (of_int i)"
    and r: "0 \<le> r" "r \<le> 1" and j: "0 \<le> j" "2 * j \<le> 2 ^ 53"
  shows "\<exists>t. jitterAmount fl r (of_int j) = Num t \<and> - of_int j \<le> t \<and> t \<le> of_int j"
proof -
  have "0 \<le> r * of_int j" using r(1) j(1) by simp
  moreover have "r * of_int j \<le> 1 * of_int j" using r(2) j(1) by (intro mult_right_mono) auto
  ultimately obtain t1 where t1: "fl (r * of_int j) = Num t1" "0 \<le> t1" "t1 \<le> of_int j"
    using fl_between [OF mono exact, of 0 "r * of_int j" j] j by auto
  have "t1 * 2 \<le> of_int (2 * j)" using t1(3) by simp
  then obtain t2 where t2: "fl (t1 * 2) = Num t2" "0 \<le> t2" "t2 \<le> of_int (2 * j)"
    using fl_between [OF mono exact, of 0 "t1 * 2" "2 * j"] t1(2) j by auto
  have "of_int (- j) \<le> t2 + - of_int j" "t2 + - of_int j \<le> of_int j"
    using t2(2,3) by simp_all
  then obtain t3 where t3: "fl (t2 + - of_int j) = Num t3" "of_int (- j) \<le> t3" "t3 \<le> of_int j"
    using fl_between [OF mono exact, of "- j" "t2 + - of_int j" j] j by auto
  show ?thesis
    using t1(1) t2(1) t3 by (simp add: jitterAmount_def js_minus_def)
qed

lemma Math_round_between:
  assumes "of_int lo \<le> x" "x \<le> of_int hi"
  shows "\<exists>d. Math_round (Num x) = Num d \<and> of_int lo \<le> d \<and> d \<le> of_int hi"
proof -
  have "lo \<le> \<lfloor>x + 1 / 2\<rfloor>" using assms(1) by (simp add: le_floor_iff)
  moreover have "\<lfloor>x + 1 / 2\<rfloor> \<le> hi" using assms(2) by (simp add: floor_le_iff)
  ultimately show ?thesis by simp
qed

lemma fl_exact_mono: "\<forall>x y. x \<le> y \<longrightarrow> js_le (fl_exact x) (fl_exact y)"
  by (auto simp: fl_exact_def)

lemma fl_exact_int: "\<forall>i::int. \<bar>i\<bar> \<le> 2 ^ 53 \<longrightarrow> fl_exact (of_int i) = Num (of_int i)"
proof (intro allI impI)
  fix i :: int
  assume "\<bar>i\<bar> \<le> 2 ^ 53"
  then have "\<bar>of_int i :: real\<bar> \<le> 2 ^ 53"
    by (metis of_int_abs of_int_le_iff of_int_numeral of_int_power)
  moreover have "(2::real) ^ 53 < 2 ^ 1024" by (intro power_strict_increasing) auto
  ultimately show "fl_exact (of_int i) = Num (of_int i)"
    by (auto simp: fl_exact_def)
qed

lemmas retry_defs =
  calculateDelay_def jitterAmount_def js_minus_def Math_pow2_def Math_min_def Math_max_def
  fl_exact_def inf_of_sign_def Let_def

section \<open>Properties of the retry engine\<close>

text \<open>
  With a positive attempt ceiling, every error \<open>withRetry\<close> throws is an error the
  operation itself threw: the loop is left by \<open>return\<close> or by \<open>throw lastError\<close> only.
\<close>

lemma withRetry_loop_error_from_operation:
  assumes "snd (withRetry_loop fl opts fn rnd attempt lastError delays) = Inl e"
    and "int attempt < maxAttempts opts"
  shows "\<exists>k. fn k = Inl e"
  using assms
proof (induction fl opts fn rnd attempt lastError delays rule: withRetry_loop.induct)
  case (1 fl opts fn rnd attempt lastError delays)
  note unfold = withRetry_loop.simps [of fl opts fn rnd attempt lastError delays]
  show ?case
  proof (cases "fn attempt")
    case (Inr v)
    with "1.prems" show ?thesis by (simp add: unfold del: withRetry_loop.simps)
  next
    case (Inl e')
    show ?thesis
    proof (cases "shouldRetry e' (int (attempt + 1)) (maxAttempts opts) (retryableErrors opts)")
      case False
      with Inl "1.prems" have "e = e'" by (simp add: unfold del: withRetry_loop.simps)
      with Inl show ?thesis by blast
    next
      case True
      then have lt: "int (attempt + 1) < maxAttempts opts"
        by (simp split: if_splits)
      have "snd (withRetry_loop fl opts fn rnd (attempt + 1) (Some e')
                  (delays @ [getRetryDelay fl e' attempt opts (rnd attempt)])) = Inl e"
        using "1.prems" Inl True
        by (simp add: unfold del: withRetry_loop.simps shouldRetry.simps)
      then show ?thesis
        using "1.IH" [OF "1.prems"(2) Inl _ _ lt] True
        by (simp del: withRetry_loop.simps shouldRetry.simps)
    qed
  qed
qed

lemma withRetry_error_from_operation:
  assumes "0 < maxAttempts opts" and "snd (withRetry fl opts fn rnd) = Inl e"
  shows "\<exists>k. fn k = Inl e"
  using withRetry_loop_error_from_operation [of fl opts fn rnd 0 None "[]" e] assms
  by (simp add: withRetry_def del: withRetry_loop.simps)

text \<open>
  Claim C1. When the attempt ceiling is reached without success, \<open>withRetry\<close> should
  surface a \<open>MaxRetriesExceeded\<close> error wrapping the last error and carrying the attempt
  count. The code does not: after the failure that exhausts the budget \<open>shouldRetry\<close>
  answers false (\<open>attempt >= maxAttempts\<close>) and the last error itself is rethrown; the
  \<open>MaxRetriesExceededError\<close> after the loop is reached only when \<open>maxAttempts\<close> is not
  positive. Here the operation fails three times with a retryable 503 error under the
  token-acquisition policy (three attempts): two delays are slept and the raw
  \<open>ServiceUnavailableError\<close> comes out.
\<close>

theorem withRetry_ceiling_rethrows_last_error:
  "withRetry fl_exact
     \<lparr> maxAttempts = 3, baseDelay = 1000, jitter = 250, maxDelay = 5000,
       retryableErrors = [] \<rparr>
     (\<lambda>k. Inl (ServiceUnavailableError ''Service temporarily unavailable'' None) :: error + unit)
     (\<lambda>k. 1 / 2)
   = ([Num 1000, Num 2000],
      Inl (ServiceUnavailableError ''Service temporarily unavailable'' None))"
  by (simp add: withRetry_def ServiceUnavailableError_def getRetryDelay_def retry_defs)

text \<open>
  Claim C2. With a server hint the delay is \<open>hint * 1000\<close> plus the jitter component and
  should never be negative. \<open>getRetryDelay\<close> rounds that sum without clamping it at 0
  (as \<open>calculateDelay\<close> does): a \<open>RateLimitError\<close> with hint 0 (header \<open>Retry-After: 0\<close>),
  jitter 250 and a random draw of 0 gives the delay -250.
\<close>

theorem getRetryDelay_hint_can_be_negative:
  "getRetryDelay fl_exact (RateLimitError (Num 0) ''Rate limit exceeded'') 0
     \<lparr> maxAttempts = 5, baseDelay = 1000, jitter = 250, maxDelay = 16000,
       retryableErrors = [] \<rparr> 0
   = Num (- 250)"
  by (simp add: getRetryDelay_def RateLimitError_def retry_defs)

text \<open>
  Claim C3, as stated: for every attempt index \<open>a\<close> and every jitter draw the delay of
  \<open>calculateDelay\<close> lies between \<open>max(0, min(base * 2^a, max_delay) - jitter)\<close> and
  \<open>min(base * 2^a, max_delay) + jitter\<close>. It fails for policies the function accepts.
  With base 0.5, jitter 0 and max 10 the delay at attempt 0 is 1 (\<open>Math.round(0.5)\<close>),
  above the upper end 0.5. With base 1000, jitter -250 and max 16000 the draw 0 gives
  1250, above the upper end 750. With base -1000, or with max -5, the delay is clamped
  to 0, above the upper ends -1000 and -5. With base 0 the product
  \<open>0 * Math.pow(2, 1024)\<close> is zero times infinity, and the delay at attempt 1024 is
  \<open>NaN\<close>.
\<close>

theorem calculateDelay_outside_interval_counterexample:
  "calculateDelay fl_exact 0 (1 / 2) 0 10 0 = Num 1
   \<and> \<not> (1 \<le> min (1 / 2 * 2 ^ 0) 10 + (0::real))
   \<and> calculateDelay fl_exact 0 1000 (- 250) 16000 0 = Num 1250
   \<and> \<not> (1250 \<le> min (1000 * 2 ^ 0) 16000 + (- 250 :: real))
   \<and> calculateDelay fl_exact 0 (- 1000) 0 16000 0 = Num 0
   \<and> \<not> (0 \<le> min (- 1000 * 2 ^ 0) 16000 + (0::real))
   \<and> calculateDelay fl_exact 0 1000 0 (- 5) 0 = Num 0
   \<and> \<not> (0 \<le> min (1000 * 2 ^ 0) (- 5) + (0::real))
   \<and> calculateDelay fl_exact 1024 0 250 16000 (1 / 2) = NaN"
  by (simp add: retry_defs)

text \<open>
  Claim C3, amended. When the base delay is a positive whole number of milliseconds and
  the jitter and the maximum delay are non-negative whole numbers, small enough for
  doubles to hold them exactly (\<open>max_delay + 2 * jitter\<close> at most \<open>2^53\<close>), then for every
  attempt index \<open>a\<close> and every draw \<open>r\<close> of \<open>Math.random()\<close> the delay of \<open>calculateDelay\<close>
  is a number between \<open>max(0, min(base * 2^a, max_delay) - jitter)\<close> and
  \<open>min(base * 2^a, max_delay) + jitter\<close>. The first two hypotheses say of the rounding
  to doubles what the proof uses.
\<close>

theorem calculateDelay_interval:
  assumes mono: "\<forall>x y. x \<le> y \<longrightarrow> js_le (fl x) (fl y)"
    and exact: "\<forall>i::int. \<bar>i\<bar> \<le> 2 ^ 53 \<longrightarrow> fl (of_int i) = Num (of_int i)"
    and r: "0 \<le> r" "r \<le> 1"
    and whole: "b \<in> \<int>" "j \<in> \<int>" "m \<in> \<int>"
    and sign: "0 < b" "0 \<le> j" "0 \<le> m"
    and size: "m + 2 * j \<le> 2 ^ 53"
  shows "\<exists>d. calculateDelay fl a b j m r = Num d
           \<and> max 0 (min (b * 2 ^ a) m - j) \<le> d
           \<and> d \<le> min (b * 2 ^ a) m + j"
proof -
  obtain bi ji mi :: int where ints: "b = of_int bi" "j = of_int ji" "m = of_int mi"
    using whole by (auto elim!: Ints_cases)
  have bi: "1 \<le> bi" and ji: "0 \<le> ji" and mi: "0 \<le> mi"
    using sign by (simp_all add: ints)
  have "(of_int (mi + 2 * ji) :: real) \<le> of_int (2 ^ 53)"
    using size by (simp add: ints)
  then have sz: "mi + 2 * ji \<le> 2 ^ 53" by (simp only: of_int_le_iff)
  define c where "c = min (bi * 2 ^ a) mi"
  have c0: "0 \<le> c" and cm: "c \<le> mi" using bi mi by (simp_all add: c_def)
  have creal: "(of_int c :: real) = min (b * 2 ^ a) m"
    by (simp add: c_def ints min_def)
       (metis of_int_le_iff of_int_mult of_int_numeral of_int_power)
  have capped: "Math_min (js_times fl (Num b) (Math_pow2 fl a)) (Num m) = Num (of_int c)"
    unfolding ints c_def using mi ji sz by (intro cappedDelay_exact [OF mono exact bi]) auto
  obtain t where t: "jitterAmount fl r j = Num t" "- of_int ji \<le> t" "t \<le> of_int ji"
    using jitterAmount_bounds [OF mono exact r ji, of] mi sz unfolding ints by auto
  have "of_int (c - ji) \<le> of_int c + t" "of_int c + t \<le> of_int (c + ji)"
    using t(2,3) by simp_all
  moreover have "\<bar>c - ji\<bar> \<le> 2 ^ 53" "\<bar>c + ji\<bar> \<le> 2 ^ 53"
    using c0 cm ji mi sz by (simp_all add: abs_if)
  ultimately obtain u where u: "fl (of_int c + t) = Num u" "of_int (c - ji) \<le> u" "u \<le> of_int (c + ji)"
    using fl_between [OF mono exact, of "c - ji" "of_int c + t" "c + ji"] by auto
  have fin: "Math_max (Num 0) (js_plus fl (Num (of_int c)) (Num t)) = Num (max 0 u)"
    using u(1) by (simp add: Math_max_def max_def)
  have "of_int (max 0 (c - ji)) \<le> max 0 u" "max 0 u \<le> of_int (c + ji)"
    using u(2,3) c0 ji by (simp_all add: max_def)
  then obtain d where d: "Math_round (Num (max 0 u)) = Num d"
      "of_int (max 0 (c - ji)) \<le> d" "d \<le> of_int (c + ji)"
    using Math_round_between by blast
  have "calculateDelay fl a b j m r = Num d"
    using capped t(1) fin d(1) by (simp add: calculateDelay_def Let_def)
  moreover have "max 0 (min (b * 2 ^ a) m - j) \<le> d"
    using d(2) by (simp add: creal [symmetric] ints(2) max_def split: if_splits)
  moreover have "d \<le> min (b * 2 ^ a) m + j"
    using d(3) by (simp add: creal [symmetric] ints(2))
  ultimately show ?thesis by blast
qed

theorem calculateDelay_interval_witness:
  "(\<exists>d. calculateDelay fl_exact 3 1000 250 16000 (1 / 4) = Num d
        \<and> max 0 (min (1000 * 2 ^ 3) 16000 - 250) \<le> d
        \<and> d \<le> min (1000 * 2 ^ 3) 16000 + 250)
   \<and> calculateDelay fl_exact 3 1000 250 16000 (1 / 4) = Num 7875"
proof -
  have "\<exists>d. calculateDelay fl_exact 3 1000 250 16000 (1 / 4) = Num d
        \<and> max 0 (min (1000 * 2 ^ 3) 16000 - 250) \<le> d
        \<and> d \<le> min (1000 * 2 ^ 3) 16000 + 250"
    by (rule calculateDelay_interval [OF fl_exact_mono fl_exact_int]) simp_all
  moreover have "calculateDelay fl_exact 3 1000 250 16000 (1 / 4) = Num 7875"
    by (simp add: retry_defs)
  ultimately show ?thesis by blast
qed

section \<open>Properties of the API client\<close>

text \<open>
  Claim C6. For a 429 or 503 response the \<open>Retry-After\<close> header is read as integer
  seconds, then as an HTTP date, and the result should be 60 whenever the header is
  absent or cannot be parsed in either form, never \<open>NaN\<close>. The code returns \<open>NaN\<close> for a
  header that is neither a number nor a date: \<open>parseInt\<close> gives \<open>NaN\<close>, \<open>new Date\<close> builds
  an invalid date without throwing, so the fallback in the \<open>catch\<close> block is not reached
  and \<open>Math.ceil(Math.max(0, NaN - now) / 1000)\<close> is returned. The header value
  \<open>soon\<close> shows it, for every clock value.
\<close>

theorem getRetryAfter_unparsable_header_is_NaN:
  assumes "parseDate ''soon'' = None"
    and "headers response ''retry-after'' = Some ''soon''"
  shows "ApiClient_getRetryAfter fl parseDate now response = NaN"
  using assms
  by (simp add: ApiClient_getRetryAfter_def parseInt10_def isWhiteSpace_def isDigit_def
        getTime_def js_minus_def Math_max_def)

theorem getRetryAfter_unparsable_header_is_NaN_witness:
  "(\<lambda>s. None :: int option) ''soon'' = None
   \<and> headers \<lparr> status = 429, statusText = ''Too Many Requests'',
                 headers = [''retry-after'' \<mapsto> ''soon''],
                 jsonBody = Inr (), errorBody = '''' \<rparr> ''retry-after'' = Some ''soon''
   \<and> ApiClient_getRetryAfter fl_exact (\<lambda>s. None) 1700000000000
         \<lparr> status = 429, statusText = ''Too Many Requests'',
           headers = [''retry-after'' \<mapsto> ''soon''],
           jsonBody = Inr (), errorBody = '''' \<rparr> = NaN"
  using getRetryAfter_unparsable_header_is_NaN
    [of "\<lambda>s. None"
        "\<lparr> status = 429, statusText = ''Too Many Requests'',
           headers = [''retry-after'' \<mapsto> ''soon''],
           jsonBody = Inr (), errorBody = '''' \<rparr>"
        fl_exact 1700000000000]
  by simp

text \<open>
  Claim C9. With the policy base 100 ms, jitter 0, max 1600 ms, four consecutive 503
  responses without a \<open>Retry-After\<close> header followed by a 200 should give the retry
  delays 100, 200, 400 and 800 ms. In the code the 503 branch of \<open>handleResponse\<close> always
  stores a hint in the error (\<open>getRetryAfter\<close> answers 60 when the header is absent),
  and \<open>getRetryDelay\<close> lets a hint override the exponential backoff: under the claim's
  policy the four delays are 60000 ms each, whatever the token, the clock and the random
  draws are. The client's own \<open>request\<close>, whose policy is fixed in the code, waits
  60000 ms four times as well when the jitter draws are one half.
\<close>

theorem backoff_503_without_header_waits_default_hint:
  "withRetry fl_exact
     \<lparr> maxAttempts = 5, baseDelay = 100, jitter = 0, maxDelay = 1600,
       retryableErrors = [] \<rparr>
     (\<lambda>k. executeRequest fl_exact parseDate url
            \<lparr> tokenResult = Inr tok,
              fetchResult =
                Inr (if k < 4
                     then \<lparr> status = 503, statusText = ''Service Unavailable'',
                            headers = Map.empty, jsonBody = Inr body, errorBody = [] \<rparr>
                     else \<lparr> status = 200, statusText = ''OK'',
                            headers = Map.empty, jsonBody = Inr body, errorBody = [] \<rparr>),
              clock = now k \<rparr>)
     rnd
   = ([Num 60000, Num 60000, Num 60000, Num 60000], Inr body)
   \<and> ApiClient_request fl_exact parseDate url
       (\<lambda>k. \<lparr> tokenResult = Inr tok,
              fetchResult =
                Inr (if k < 4
                     then \<lparr> status = 503, statusText = ''Service Unavailable'',
                            headers = Map.empty, jsonBody = Inr body, errorBody = [] \<rparr>
                     else \<lparr> status = 200, statusText = ''OK'',
                            headers = Map.empty, jsonBody = Inr body, errorBody = [] \<rparr>),
              clock = now k \<rparr>)
       half_draws
   = ([Num 60000, Num 60000, Num 60000, Num 60000], Inr body)"
  by (simp add: withRetry_def ApiClient_request_def executeRequest_def handleResponse_def ok_def
        ApiClient_getRetryAfter_def str_or_def ServiceUnavailableError_def
        getRetryDelay_def retry_defs half_draws_def)

section \<open>Properties of the rate limiter\<close>

lemmas rate_limiter_defs =
  step_def execute_def canMakeRequest_def cleanOldRequests_def recordRequest_def
  queueRequest_def processQueue_def processQueue_loop_def waitForReset_def getInfo_def
  drain_dispatch_def sort_by_def compareRequests_def new_RateLimiter_def Let_def

lemma sorted_filter_hd_Min:
  fixes xs :: "int list"
  assumes "sorted xs" "filter P xs \<noteq> []"
  shows "hd (filter P xs) = Min (set (filter P xs))"
proof -
  have "sorted (filter P xs)" using assms(1) by (simp add: sorted_wrt_filter)
  then show ?thesis using assms(2)
    by (cases "filter P xs") (auto simp: Min_insert2 intro!: Min_eqI [symmetric])
qed

text \<open>
  Claim C4, as stated: \<open>getInfo\<close> returns \<open>remaining\<close> equal to the capacity minus the
  number of timestamps still inside the window, and \<open>reset_at\<close> equal to the oldest
  surviving timestamp plus the window, or the current time when the list is empty.
  It fails on the code in two places. On a new limiter (empty list) at time 5000 with a
  window of 1000 ms \<open>resetAt\<close> is 6000, the clock plus the window, not the clock. And
  \<open>remaining\<close> is clamped at 0: in the state the run \<open>overtaking_run\<close> reaches, two
  timestamps are inside the window at time 1106 with capacity 1 and \<open>remaining\<close> is 0,
  not \<open>1 - 2\<close>.
\<close>

theorem getInfo_empty_and_clamp_counterexample:
  "requests new_RateLimiter = []
   \<and> resetAt (fst (getInfo \<lparr> maxRequests = 10, windowMs = 1000 \<rparr> 5000 new_RateLimiter)) = 6000
   \<and> run \<lparr> maxRequests = 1, windowMs = 1000 \<rparr> 0 new_RateLimiter overtaking_run
       = Some \<lparr> requests = [1105, 1106], queue = [], processing = True,
                 drain = AwaitExecute 2, admitted = [(1, 100), (3, 1105), (2, 1106)] \<rparr>
   \<and> requests (snd (getInfo \<lparr> maxRequests = 1, windowMs = 1000 \<rparr> 1106
        \<lparr> requests = [1105, 1106], queue = [], processing = True,
          drain = AwaitExecute 2, admitted = [(1, 100), (3, 1105), (2, 1106)] \<rparr>))
       = [1105, 1106]
   \<and> remaining (fst (getInfo \<lparr> maxRequests = 1, windowMs = 1000 \<rparr> 1106
        \<lparr> requests = [1105, 1106], queue = [], processing = True,
          drain = AwaitExecute 2, admitted = [(1, 100), (3, 1105), (2, 1106)] \<rparr>)) = 0"
  by (simp add: rate_limiter_defs overtaking_run_def)

text \<open>
  Claim C4, amended. \<open>getInfo\<close> prunes the timestamps that are not newer than the clock
  minus the window, and then returns \<open>remaining\<close> equal to the capacity minus the number
  of surviving timestamps, clamped at 0, and \<open>resetAt\<close> equal to the oldest surviving
  timestamp plus the window, or the clock plus the window when no timestamp survives;
  \<open>total\<close> is the capacity. Timestamps are positive and stored in the order of the
  clock, as \<open>recordRequest\<close> appends them.
\<close>

theorem getInfo_snapshot:
  assumes "sorted (requests s)" and "\<forall>t \<in> set (requests s). 0 < t"
  shows "remaining (fst (getInfo cfg now s))
           = max 0 (maxRequests cfg
                    - int (length (filter (\<lambda>t. t > now - windowMs cfg) (requests s))))
       \<and> resetAt (fst (getInfo cfg now s))
           = (if filter (\<lambda>t. t > now - windowMs cfg) (requests s) = [] then now
              else Min (set (filter (\<lambda>t. t > now - windowMs cfg) (requests s))))
             + windowMs cfg
       \<and> total' (fst (getInfo cfg now s)) = maxRequests cfg
       \<and> requests (snd (getInfo cfg now s))
           = filter (\<lambda>t. t > now - windowMs cfg) (requests s)"
proof -
  define alive where "alive = filter (\<lambda>t. t > now - windowMs cfg) (requests s)"
  show ?thesis
  proof (cases alive)
    case Nil
    then show ?thesis
      by (simp add: getInfo_def cleanOldRequests_def Let_def alive_def [symmetric])
  next
    case (Cons t ts)
    have "t \<in> set (requests s)"
      using Cons by (metis alive_def filter_is_subset list.set_intros(1) subsetD)
    then have t0: "t \<noteq> 0" using assms(2) by auto
    have "hd alive = Min (set alive)"
      unfolding alive_def using assms(1) Cons
      by (intro sorted_filter_hd_Min) (auto simp: alive_def)
    then have "t = Min (set alive)" using Cons by simp
    then show ?thesis using Cons t0
      by (simp add: getInfo_def cleanOldRequests_def Let_def alive_def [symmetric])
  qed
qed

theorem getInfo_snapshot_witness:
  "remaining (fst (getInfo \<lparr> maxRequests = 5, windowMs = 1000 \<rparr> 1200
        \<lparr> requests = [100, 700, 900], queue = [], processing = False, drain = Idle,
          admitted = [(1, 100), (2, 700), (3, 900)] \<rparr>)) = 3
   \<and> resetAt (fst (getInfo \<lparr> maxRequests = 5, windowMs = 1000 \<rparr> 1200
        \<lparr> requests = [100, 700, 900], queue = [], processing = False, drain = Idle,
          admitted = [(1, 100), (2, 700), (3, 900)] \<rparr>)) = 1700"
  using getInfo_snapshot
    [of "\<lparr> requests = [100, 700, 900], queue = [], processing = False, drain = Idle,
           admitted = [(1, 100), (2, 700), (3, 900)] \<rparr>"
        "\<lparr> maxRequests = 5, windowMs = 1000 \<rparr>" 1200]
  by simp

text \<open>
  Claim C5. After pruning, at most \<open>capacity\<close> admission timestamps should remain, and a
  request should be admitted only when the pruned count is below the capacity, on the
  immediate path and on the queue-drain path alike. The drain path breaks both: after
  \<open>await this.waitForReset()\<close> the loop shifts the next request and records it without
  looking at the window again. In \<open>overtaking_run\<close> (capacity 1, window 1000 ms) request
  3 takes the slot freed at 1100 on the immediate path at 1105, and the drain admits
  request 2 at 1106: two timestamps survive the pruning at 1106.
\<close>

theorem drain_admits_over_capacity:
  "run \<lparr> maxRequests = 1, windowMs = 1000 \<rparr> 0 new_RateLimiter overtaking_run
     = Some \<lparr> requests = [1105, 1106], queue = [], processing = True,
               drain = AwaitExecute 2, admitted = [(1, 100), (3, 1105), (2, 1106)] \<rparr>
   \<and> requests (cleanOldRequests \<lparr> maxRequests = 1, windowMs = 1000 \<rparr> 1106
         \<lparr> requests = [1105, 1106], queue = [], processing = True,
           drain = AwaitExecute 2, admitted = [(1, 100), (3, 1105), (2, 1106)] \<rparr>)
     = [1105, 1106]"
  by (simp add: rate_limiter_defs overtaking_run_def)

section \<open>Properties of the token manager\<close>

lemmas token_manager_defs =
  getToken_def refreshToken_def acquireToken_call_def isTokenExpired_def needsRefresh_def
  TOKEN_REFRESH_BUFFER_SECONDS_def Let_def

lemma endpoint_down_outcome:
  "acquisition_outcome fl endpoint_down rnd
   = Inl (AuthError ''Network error during authentication: fetch failed''
            (Some (PlainError ''fetch failed'' None)))"
  by (simp add: acquisition_outcome_def withRetry_def authenticateWithApi_def endpoint_down_def
        wrapAuthFailure_def AuthError_def)

text \<open>
  A refresh can also fail after the token was obtained: the endpoint answers with a
  lifetime that puts the expiry beyond the valid dates, the token is stored, the
  logging of the expiry throws, and the callers get an \<open>AuthError\<close> although the stored
  token has changed.
\<close>

lemma refresh_failing_after_store_replaces_token:
  "acquireToken_settle fl 0 endpoint_far_expiry rnd
     (holding_token\<lparr> isRefreshing := True, promise := Some 0, pending := [(0, True)],
                     nextPromise := 1 \<rparr>)
   = Some (Inl (AuthError ''Failed to authenticate with API''
                  (Some (PlainError ''Invalid time value'' None))),
           holding_token\<lparr> token := Some \<lparr> access_token = ''xyz'', token_type = ''Bearer'',
                                            expires_in = 10000000000000, issued_at = 4400 \<rparr>,
                           nextPromise := 1 \<rparr>)"
  by (simp add: acquireToken_settle_def acquisition_outcome_def withRetry_def
        authenticateWithApi_def endpoint_far_expiry_def holding_token_def getExpiryTime_def
        toISOString_throws_def)

text \<open>
  Claim C7. Whatever the interleaving of callers, at most one token acquisition should
  be under way, \<open>getToken\<close> calls arriving while no token is held included. When no token
  is held \<open>getToken\<close> calls \<open>acquireToken\<close> directly and leaves the refresh state
  untouched, so a second \<open>getToken\<close> arriving before the first acquisition settles starts
  another one: two requests are under way and the two callers await different promises.
\<close>

theorem concurrent_getToken_starts_two_acquisitions:
  "getToken now new_TokenManager
     = (Awaiting 0, new_TokenManager\<lparr> pending := [(0, False)], nextPromise := 1 \<rparr>)
   \<and> getToken now (new_TokenManager\<lparr> pending := [(0, False)], nextPromise := 1 \<rparr>)
     = (Awaiting 1,
        new_TokenManager\<lparr> pending := [(0, False), (1, False)], nextPromise := 2 \<rparr>)"
  by (simp add: token_manager_defs new_TokenManager_def)

text \<open>
  Claim C8, as stated: after a failed refresh the stored token is unchanged, the error
  propagates, and an existing token that has not expired remains usable by later
  \<open>getToken\<close> calls. The last part fails inside the refresh buffer. The token of
  \<open>holding_token\<close> expires at second 4600; at second 4400 it has not expired, \<open>getToken\<close>
  starts a refresh, the refresh fails and leaves the token in place, and the next
  \<open>getToken\<close> does not return the token: it starts another refresh, which fails too
  while the endpoint is down.
\<close>

theorem failed_refresh_in_buffer_counterexample:
  "\<not> isTokenExpired 4400000 holding_token
   \<and> getToken 4400000 holding_token
       = (Awaiting 0, holding_token\<lparr> isRefreshing := True, promise := Some 0,
                                     pending := [(0, True)], nextPromise := 1 \<rparr>)
   \<and> acquireToken_settle fl_exact 0 endpoint_down half_draws
        (holding_token\<lparr> isRefreshing := True, promise := Some 0,
                        pending := [(0, True)], nextPromise := 1 \<rparr>)
       = Some (Inl (AuthError ''Failed to authenticate with API''
                      (Some (AuthError ''Network error during authentication: fetch failed''
                               (Some (PlainError ''fetch failed'' None))))),
               holding_token\<lparr> nextPromise := 1 \<rparr>)
   \<and> \<not> isTokenExpired 4400000 (holding_token\<lparr> nextPromise := 1 \<rparr>)
   \<and> getToken 4400000 (holding_token\<lparr> nextPromise := 1 \<rparr>)
       = (Awaiting 1, holding_token\<lparr> isRefreshing := True, promise := Some 1,
                                     pending := [(1, True)], nextPromise := 2 \<rparr>)
   \<and> acquireToken_settle fl_exact 1 endpoint_down half_draws
        (holding_token\<lparr> isRefreshing := True, promise := Some 1,
                        pending := [(1, True)], nextPromise := 2 \<rparr>)
       = Some (Inl (AuthError ''Failed to authenticate with API''
                      (Some (AuthError ''Network error during authentication: fetch failed''
                               (Some (PlainError ''fetch failed'' None))))),
               holding_token\<lparr> nextPromise := 2 \<rparr>)"
  by (simp add: token_manager_defs holding_token_def acquireToken_settle_def
        endpoint_down_outcome)

text \<open>
  Claim C8, amended. In every state holding a token, when the acquisition that
  \<open>refreshToken\<close> started throws after its retry budget, the refresh fails with an
  \<open>AuthError\<close> wrapping that error, the stored token is unchanged and the refresh state
  is cleared; a later \<open>getToken\<close> returns the stored token, without a new acquisition,
  as long as the token is more than 300 seconds from its expiry.
\<close>

theorem failed_refresh_keeps_token:
  assumes "acquisition_outcome fl attempts rnd = Inl cause"
    and "map_of (pending s) k = Some True"
    and "token s = Some t"
  shows "\<exists>s'. acquireToken_settle fl k attempts rnd s
                = Some (Inl (AuthError ''Failed to authenticate with API'' (Some cause)), s')
             \<and> token s' = Some t
             \<and> isRefreshing s' = False \<and> promise s' = None
             \<and> (\<not> needsRefresh now s' \<longrightarrow> getToken now s' = (Returned t, s'))"
proof -
  define s' where
    "s' = s\<lparr> pending := filter (\<lambda>p. fst p \<noteq> k) (pending s), isRefreshing := False,
             promise := None \<rparr>"
  have settle: "acquireToken_settle fl k attempts rnd s
                  = Some (Inl (AuthError ''Failed to authenticate with API'' (Some cause)), s')"
    using assms(1,2) by (simp add: acquireToken_settle_def s'_def)
  have tok: "token s' = Some t" using assms(3) by (simp add: s'_def)
  have clr: "isRefreshing s' = False \<and> promise s' = None" by (simp add: s'_def)
  have "getToken now s' = (Returned t, s')" if "\<not> needsRefresh now s'"
  proof -
    have "\<not> isTokenExpired now s'"
      using that tok
      by (simp add: isTokenExpired_def needsRefresh_def TOKEN_REFRESH_BUFFER_SECONDS_def Let_def)
    then show ?thesis using that tok clr by (simp add: getToken_def)
  qed
  then show ?thesis using settle tok clr by blast
qed

theorem failed_refresh_keeps_token_witness:
  "acquisition_outcome fl_exact endpoint_down half_draws
     = Inl (AuthError ''Network error during authentication: fetch failed''
              (Some (PlainError ''fetch failed'' None)))
   \<and> acquireToken_settle fl_exact 0 endpoint_down half_draws
        (holding_token\<lparr> isRefreshing := True, promise := Some 0, pending := [(0, True)],
                        nextPromise := 1 \<rparr>)
       = Some (Inl (AuthError ''Failed to authenticate with API''
                      (Some (AuthError ''Network error during authentication: fetch failed''
                               (Some (PlainError ''fetch failed'' None))))),
               holding_token\<lparr> nextPromise := 1 \<rparr>)
   \<and> \<not> needsRefresh 1500000 (holding_token\<lparr> nextPromise := 1 \<rparr>)
   \<and> getToken 1500000 (holding_token\<lparr> nextPromise := 1 \<rparr>)
       = (Returned \<lparr> access_token = ''abc'', token_type = ''Bearer'', expires_in = 3600,
                     issued_at = 1000 \<rparr>,
          holding_token\<lparr> nextPromise := 1 \<rparr>)"
proof -
  let ?s = "holding_token\<lparr> isRefreshing := True, promise := Some 0, pending := [(0, True)],
                           nextPromise := 1 \<rparr>"
  let ?t = "\<lparr> access_token = ''abc'', token_type = ''Bearer'', expires_in = 3600,
               issued_at = 1000 \<rparr>"
  have out: "acquisition_outcome fl_exact endpoint_down half_draws
     = Inl (AuthError ''Network error during authentication: fetch failed''
              (Some (PlainError ''fetch failed'' None)))"
    by (rule endpoint_down_outcome)
  have pend: "map_of (pending ?s) 0 = Some True" by simp
  have held: "token ?s = Some ?t" by (simp add: holding_token_def)
  have fresh: "\<not> needsRefresh 1500000 (holding_token\<lparr> nextPromise := 1 \<rparr>)"
    by (simp add: needsRefresh_def holding_token_def TOKEN_REFRESH_BUFFER_SECONDS_def)
  obtain s' where s':
    "acquireToken_settle fl_exact 0 endpoint_down half_draws ?s
       = Some (Inl (AuthError ''Failed to authenticate with API''
                      (Some (AuthError ''Network error during authentication: fetch failed''
                               (Some (PlainError ''fetch failed'' None))))), s')"
    "\<not> needsRefresh 1500000 s' \<longrightarrow> getToken 1500000 s' = (Returned ?t, s')"
    using failed_refresh_keeps_token [OF out pend held, of 1500000] by blast
  have eq: "s' = holding_token\<lparr> nextPromise := 1 \<rparr>"
    using s'(1) by (simp add: acquireToken_settle_def out holding_token_def)
  show ?thesis using out s' fresh unfolding eq by simp
qed

section \<open>Properties of the campaign worker\<close>

lemma foldl_retries:
  "foldl (\<lambda>sum r. sum + retries r) a (syncCampaignsWithProgress jobs) = a"
proof (induction jobs arbitrary: a)
  case Nil
  then show ?case by simp
next
  case (Cons job jobs)
  obtain campaign env where job: "job = (campaign, env)" by (cases job)
  show ?case
    using Cons.IH
    by (simp add: job syncCampaign_def syncCampaign_try_def split: sum.splits)
qed

text \<open>
  Claim C10. Whatever the injected sync and save functions do, \<open>syncCampaign\<close> does not
  throw and returns a result whose \<open>campaignId\<close> is the campaign's id and whose
  \<open>retries\<close> is 0; every job therefore contributes one result, and the \<open>retryCount\<close> of
  the report generated from the results is 0.
\<close>

theorem syncCampaign_retries_always_zero:
  "(\<exists>r. syncCampaign campaign env = Inr r \<and> campaignId r = id' campaign \<and> retries r = 0)
   \<and> length (syncCampaignsWithProgress jobs) = length jobs
   \<and> retryCount (generateReport start end' total'' (syncCampaignsWithProgress jobs)) = 0"
proof -
  have "\<exists>r. syncCampaign campaign env = Inr r \<and> campaignId r = id' campaign \<and> retries r = 0"
    by (simp add: syncCampaign_def syncCampaign_try_def split: sum.splits)
  moreover have "length (syncCampaignsWithProgress jobs) = length jobs"
    by (induction jobs) (auto simp: syncCampaign_def syncCampaign_try_def split: sum.splits)
  moreover have
    "retryCount (generateReport start end' total'' (syncCampaignsWithProgress jobs)) = 0"
    by (simp add: generateReport_def foldl_retries)
  ultimately show ?thesis by blast
qed

end
